theory Spec2Isabelle
  imports Main "HOL-Library.Word"
begin

unbundle bit_operations_syntax

section \<open>nerfnet: a shallow embedding of the secondary transport, the mock link and the codec\<close>

text \<open>
  The development follows the C++ sources function by function. Unsigned machine
  integers are words of their width, \<open>std::string\<close> used as a byte buffer is a list of
  bytes, \<open>std::optional\<close> and protobuf field presence are \<open>option\<close>, and everything a
  function does to the outside (logging, the write to the tunnel descriptor, the frame
  handed to the radio) is recorded in a trace of events, in program order.
\<close>

type_synonym u8 = "8 word"
type_synonym u32 = "32 word"
type_synonym u64 = "64 word"
type_synonym bytes = "u8 list"

subsection \<open>nerfnet/util/encode\_decode.cc\<close>

text \<open>
  \<open>EncodeValue\<close> pushes \<open>static_cast<uint8_t>(value >> k)\<close> for \<open>k = 0, 8, 16, 24\<close>
  onto an empty string. The cast keeps the low eight bits (\<open>ucast\<close>), the shift is
  logical (\<open>drop_bit\<close>).
\<close>

definition EncodeValue :: "u32 \<Rightarrow> bytes" where
  "EncodeValue v =
     [ucast v, ucast (drop_bit 8 v), ucast (drop_bit 16 v), ucast (drop_bit 24 v)]"

text \<open>
  The little-endian representation as the specification words it: byte \<open>i\<close> of the
  encoding is digit \<open>i\<close> of the value in base 256, least significant digit first.
\<close>

definition little_endian_spec :: "u32 \<Rightarrow> bytes" where
  "little_endian_spec v =
     [of_nat (unat v mod 256),
      of_nat (unat v div 256 mod 256),
      of_nat (unat v div 65536 mod 256),
      of_nat (unat v div 16777216 mod 256)]"

text \<open>Reading four bytes back as a little-endian number.\<close>

fun little_endian_value :: "bytes \<Rightarrow> nat" where
  "little_endian_value [] = 0"
| "little_endian_value (b # bs) = unat b + 256 * little_endian_value bs"

subsection \<open>Messages\<close>

text \<open>
  The protobuf schema is not among the sources; the messages are modelled by the
  accessors the handlers call on them. An optional field is an \<open>option\<close>: \<open>has_x\<close> asks
  for presence, the getter returns the protobuf default (zero, the empty string) when
  the field is absent, \<open>set_x\<close> makes it present.
\<close>

record Ping =
  value_field :: "u32 option"

record NetworkTunnelTxRx =
  id_field :: "u32 option"
  ack_id_field :: "u32 option"
  payload_field :: "bytes option"
  remaining_bytes_field :: "u32 option"

datatype Request =
    Request_Ping Ping
  | Request_NetworkTunnelTxRx NetworkTunnelTxRx
  | Request_NOT_SET

datatype Response =
    Response_Ping Ping
  | Response_NetworkTunnelTxRx NetworkTunnelTxRx

definition has_value :: "Ping \<Rightarrow> bool" where
  "has_value p = (value_field p \<noteq> None)"

definition ping_value :: "Ping \<Rightarrow> u32" where
  "ping_value p = (case value_field p of None \<Rightarrow> 0 | Some v \<Rightarrow> v)"

definition has_id :: "NetworkTunnelTxRx \<Rightarrow> bool" where
  "has_id t = (id_field t \<noteq> None)"

definition tunnel_id :: "NetworkTunnelTxRx \<Rightarrow> u32" where
  "tunnel_id t = (case id_field t of None \<Rightarrow> 0 | Some v \<Rightarrow> v)"

definition has_ack_id :: "NetworkTunnelTxRx \<Rightarrow> bool" where
  "has_ack_id t = (ack_id_field t \<noteq> None)"

definition tunnel_ack_id :: "NetworkTunnelTxRx \<Rightarrow> u32" where
  "tunnel_ack_id t = (case ack_id_field t of None \<Rightarrow> 0 | Some v \<Rightarrow> v)"

definition has_payload :: "NetworkTunnelTxRx \<Rightarrow> bool" where
  "has_payload t = (payload_field t \<noteq> None)"

definition tunnel_payload :: "NetworkTunnelTxRx \<Rightarrow> bytes" where
  "tunnel_payload t = (case payload_field t of None \<Rightarrow> [] | Some b \<Rightarrow> b)"

definition tunnel_remaining_bytes :: "NetworkTunnelTxRx \<Rightarrow> u32" where
  "tunnel_remaining_bytes t = (case remaining_bytes_field t of None \<Rightarrow> 0 | Some v \<Rightarrow> v)"

subsection \<open>nerfnet/net/secondary\_radio\_interface.cc: state, effects, environment\<close>

text \<open>
  The members of the endpoint that the handlers read and write. \<open>read_buffer\<close> is the
  \<open>std::deque\<close> of datagrams read from the tunnel, front first. The handler of tunnel
  messages holds \<open>read_buffer_mutex_\<close> for its whole body, so the tunnel-read thread does
  not change \<open>read_buffer\<close> between its first and its last line.
\<close>

record SecondaryRadioInterface =
  next_id :: u32
  last_ack_id :: "u32 option"
  frame_buffer :: bytes
  read_buffer :: "bytes list"
  payload_in_flight :: bool

datatype RequestResult = Success | Timeout | MalformedRequest | TransmitError

text \<open>
  What a handler does to the outside, in program order: a log line (its format string
  and its numeric arguments), a \<open>write\<close> of a buffer to the tunnel descriptor, and a
  response handed to \<open>Send\<close>.
\<close>

datatype event =
    LOGE string "nat list"
  | LOGI string "nat list"
  | TunnelWrite bytes
  | Send Response

text \<open>
  What the outside answers: the return value of \<open>write(2)\<close> on the tunnel descriptor and
  the status of \<open>Send\<close> (a method of the base class, which is not among the sources).
\<close>

record environment =
  write_result :: "bytes \<Rightarrow> int"
  Send_result :: "Response \<Rightarrow> RequestResult"

text \<open>\<open>std::optional::value()\<close> throws \<open>std::bad_optional_access\<close> on an empty optional.\<close>

datatype fault = bad_optional_access

definition optional_value :: "'a option \<Rightarrow> fault + 'a" where
  "optional_value x = (case x of None \<Rightarrow> Inl bad_optional_access | Some v \<Rightarrow> Inr v)"

text \<open>
  Modelled from the spec: \<open>RadioInterface::ValidateID\<close>, a method of the base class
  whose source file is missing. Section 4.3: on the first message ever received from the
  peer \<open>last_ack_id\<close> becomes the received id and any id is accepted; afterwards an id is
  valid iff it equals \<open>last_ack_id + 1\<close> modulo \<open>2^32\<close>; on valid receipt \<open>last_ack_id\<close>
  becomes the received id. Nothing else is said to change.
\<close>

definition ValidateID :: "SecondaryRadioInterface \<Rightarrow> u32 \<Rightarrow> bool \<times> SecondaryRadioInterface" where
  "ValidateID s i =
     (case last_ack_id s of
        None \<Rightarrow> (True, s\<lparr>last_ack_id := Some i\<rparr>)
      | Some l \<Rightarrow> if i = l + 1 then (True, s\<lparr>last_ack_id := Some i\<rparr>) else (False, s))"

text \<open>
  Modelled from the spec: \<open>RadioInterface::AdvanceID\<close>, a method of the base class
  whose source file is missing. The handler calls it without an argument exactly where
  a received \<open>ack_id\<close> equals \<open>next_id\<close>, and section 4.3 says that this is where the
  endpoint's own \<open>next_id\<close> advances by one (a 32-bit unsigned value that wraps).
\<close>

definition AdvanceID :: "SecondaryRadioInterface \<Rightarrow> SecondaryRadioInterface" where
  "AdvanceID s = s\<lparr>next_id := next_id s + 1\<rparr>"

subsection \<open>SecondaryRadioInterface::HandlePing\<close>

definition HandlePing :: "environment \<Rightarrow> Ping \<Rightarrow> event list" where
  "HandlePing env ping =
     (let ping_response = \<lparr>value_field = None\<rparr>;
          ping_response = (if has_value ping
                           then ping_response\<lparr>value_field := Some (ping_value ping)\<rparr>
                           else ping_response);
          response = Response_Ping ping_response;
          status = Send_result env response
      in [LOGI ''Responding to ping request'' [], Send response]
         @ (if status \<noteq> Success then [LOGE ''Failed to send ping response'' []] else []))"

subsection \<open>SecondaryRadioInterface::HandleNetworkTunnelTxRx\<close>

text \<open>
  Lines 102 to 116, the receive side: the validity check, its log line when it fails
  (whose first argument is \<open>last_ack_id_.value()\<close>), and otherwise, for a message with a
  payload, the append to \<open>frame_buffer\<close> and, nested in it, the flush when
  \<open>remaining_bytes\<close> is zero. The log line after a failed write prints \<open>errno\<close>, which is
  left out of its arguments.
\<close>

definition receive_side ::
  "environment \<Rightarrow> SecondaryRadioInterface \<Rightarrow> NetworkTunnelTxRx
     \<Rightarrow> fault + (SecondaryRadioInterface \<times> event list)" where
  "receive_side env s tunnel =
     (case ValidateID s (tunnel_id tunnel) of
        (False, s1) \<Rightarrow>
          (case optional_value (last_ack_id s1) of
             Inl f \<Rightarrow> Inl f
           | Inr l \<Rightarrow>
               Inr (s1, [LOGE ''Received non-sequential packet: %u vs %u''
                            [unat l, unat (tunnel_id tunnel)]]))
      | (True, s1) \<Rightarrow>
          if has_payload tunnel then
            (let s2 = s1\<lparr>frame_buffer := frame_buffer s1 @ tunnel_payload tunnel\<rparr>
             in if tunnel_remaining_bytes tunnel = 0 then
                  (let bytes_written = write_result env (frame_buffer s2)
                   in Inr (s2\<lparr>frame_buffer := []\<rparr>,
                           [TunnelWrite (frame_buffer s2),
                            LOGI ''Writing %zu bytes to the tunnel'' [length (frame_buffer s2)]]
                           @ (if bytes_written < 0
                              then [LOGE ''Failed to write to tunnel %s (%d)'' []] else [])))
                else Inr (s2, []))
          else Inr (s1, []))"

text \<open>
  Lines 118 to 136, the acknowledgement: it is not nested in the validity check. The
  chunk erased is the first \<open>min(frame.size(), 8)\<close> bytes of the front datagram.
\<close>

definition handle_ack ::
  "SecondaryRadioInterface \<Rightarrow> NetworkTunnelTxRx \<Rightarrow> SecondaryRadioInterface \<times> event list" where
  "handle_ack s tunnel =
     (if has_ack_id tunnel then
        if tunnel_ack_id tunnel \<noteq> next_id s then
          (s, [LOGE ''Primary radio failed to ack, retransmitting'' []])
        else
          (let s1 = AdvanceID s
           in if payload_in_flight s1 then
                (let s2 = (case read_buffer s1 of
                             [] \<Rightarrow> s1
                           | frame # rest \<Rightarrow>
                               (let transfer_size = min (length frame) 8;
                                    frame' = drop transfer_size frame
                                in s1\<lparr>read_buffer :=
                                         (if frame' = [] then rest else frame' # rest)\<rparr>))
                 in (s2\<lparr>payload_in_flight := False\<rparr>, []))
              else (s1, []))
      else (s, []))"

text \<open>
  Lines 138 to 149, the response: \<open>id\<close> and \<open>ack_id\<close> (the second through
  \<open>last_ack_id_.value()\<close>), and the first \<open>min(frame.size(), 8)\<close> bytes of the front
  datagram when there is one. \<open>remaining_bytes\<close> is a 32-bit field set from a \<open>size_t\<close>.
\<close>

definition compose_response ::
  "SecondaryRadioInterface \<Rightarrow> fault + (SecondaryRadioInterface \<times> NetworkTunnelTxRx)" where
  "compose_response s =
     (case optional_value (last_ack_id s) of
        Inl f \<Rightarrow> Inl f
      | Inr l \<Rightarrow>
          (let tunnel_response =
                 \<lparr>id_field = Some (next_id s), ack_id_field = Some l,
                  payload_field = None, remaining_bytes_field = None\<rparr>
           in case read_buffer s of
                [] \<Rightarrow> Inr (s, tunnel_response)
              | frame # rest \<Rightarrow>
                  (let transfer_size = min (length frame) 8
                   in Inr (s\<lparr>payload_in_flight := True\<rparr>,
                           tunnel_response
                             \<lparr>payload_field := Some (take transfer_size frame),
                              remaining_bytes_field :=
                                Some (of_nat (length frame - transfer_size))\<rparr>))))"

text \<open>
  The whole handler: the check for missing fields returns early; then the three parts
  above in order, \<open>Send\<close>, and the log line when \<open>Send\<close> fails.
\<close>

definition HandleNetworkTunnelTxRx ::
  "environment \<Rightarrow> SecondaryRadioInterface \<Rightarrow> NetworkTunnelTxRx
     \<Rightarrow> fault + (SecondaryRadioInterface \<times> event list)" where
  "HandleNetworkTunnelTxRx env s tunnel =
     (if \<not> has_id tunnel \<or> (last_ack_id s \<noteq> None \<and> \<not> has_ack_id tunnel) then
        Inr (s, [LOGE ''Missing tunnel fields'' []])
      else
        (case receive_side env s tunnel of
           Inl f \<Rightarrow> Inl f
         | Inr (s1, events1) \<Rightarrow>
             (case handle_ack s1 tunnel of
                (s2, events2) \<Rightarrow>
                  (case compose_response s2 of
                     Inl f \<Rightarrow> Inl f
                   | Inr (s3, tunnel_response) \<Rightarrow>
                       (let response = Response_NetworkTunnelTxRx tunnel_response;
                            status = Send_result env response
                        in Inr (s3, events1 @ events2 @ [Send response]
                                 @ (if status \<noteq> Success
                                    then [LOGE ''Failed to send network tunnel txrx response'' []]
                                    else [])))))))"

subsection \<open>SecondaryRadioInterface::HandleRequest\<close>

definition HandleRequest ::
  "environment \<Rightarrow> SecondaryRadioInterface \<Rightarrow> Request
     \<Rightarrow> fault + (SecondaryRadioInterface \<times> event list)" where
  "HandleRequest env s request =
     (case request of
        Request_Ping ping \<Rightarrow> Inr (s, HandlePing env ping)
      | Request_NetworkTunnelTxRx tunnel \<Rightarrow> HandleNetworkTunnelTxRx env s tunnel
      | Request_NOT_SET \<Rightarrow> Inr (s, [LOGE ''Received unknown request'' []]))"

text \<open>The responses a trace hands to \<open>Send\<close>, and whether it logs an error.\<close>

fun sent :: "event list \<Rightarrow> Response list" where
  "sent [] = []"
| "sent (Send r # es) = r # sent es"
| "sent (e # es) = sent es"

fun written :: "event list \<Rightarrow> bytes list" where
  "written [] = []"
| "written (TunnelWrite b # es) = b # written es"
| "written (e # es) = written es"

subsection \<open>nerfnet/net/mock\_link.cc\<close>

text \<open>
  The header of the mock link is not among the sources. \<open>Beacon\<close> assigns the product
  \<open>beacon_count_ * config_.beacon_interval_us\<close> to a \<open>uint64_t\<close> and compares it with the
  \<open>uint64_t\<close> relative time, so the counter and the interval are taken as 64-bit
  unsigned values; products and sums wrap. Only the members that \<open>Beacon\<close> uses are
  kept. The relative time \<open>TimeNowUs() - start_time_us_\<close> is an input of the model.
\<close>

datatype TransmitResult = TransmitResult_SUCCESS | TransmitResult_TRANSMIT_ERROR

record Config =
  mock_time_us :: u64
  beacon_interval_us :: u64
  beacon_result_pattern :: "TransmitResult list"
  max_payload_size :: u32

record MockLink =
  config :: Config
  beacon_count :: u64

text \<open>The constructor starts the counter at zero.\<close>

definition MockLink_new :: "Config \<Rightarrow> MockLink" where
  "MockLink_new c = \<lparr>config = c, beacon_count = 0\<rparr>"

text \<open>
  \<open>EXPECT_GE\<close> and \<open>EXPECT_LT\<close> record a failure and go on. The index into the pattern
  is a remainder by the pattern's size, which has no value for an empty pattern.
\<close>

datatype expectation_failure =
    EXPECT_GE_failure u64 u64
  | EXPECT_LT_failure u64 u64

definition Beacon ::
  "MockLink \<Rightarrow> u64 \<Rightarrow> expectation_failure list \<times> TransmitResult option \<times> MockLink" where
  "Beacon link relative_time_us =
     (let expected_beacon_time_us = beacon_count link * beacon_interval_us (config link);
          failures =
            (if relative_time_us \<ge> expected_beacon_time_us then []
             else [EXPECT_GE_failure relative_time_us expected_beacon_time_us])
            @ (if relative_time_us < expected_beacon_time_us + 10000 then []
               else [EXPECT_LT_failure relative_time_us (expected_beacon_time_us + 10000)]);
          pattern = beacon_result_pattern (config link);
          result = (if pattern = [] then None
                    else Some (pattern ! (unat (beacon_count link) mod length pattern)))
      in (failures, result, link\<lparr>beacon_count := beacon_count link + 1\<rparr>))"

text \<open>The link after a run of \<open>Beacon\<close> calls at the given relative times.\<close>

fun beacons :: "MockLink \<Rightarrow> u64 list \<Rightarrow> MockLink" where
  "beacons link [] = link"
| "beacons link (t # ts) = beacons (snd (snd (Beacon link t))) ts"

text \<open>Concrete endpoints, messages and answers of the outside, used in the examples.\<close>

definition endpoint ::
  "u32 \<Rightarrow> u32 option \<Rightarrow> bytes \<Rightarrow> bytes list \<Rightarrow> bool \<Rightarrow> SecondaryRadioInterface" where
  "endpoint n l f r p =
     \<lparr>next_id = n, last_ack_id = l, frame_buffer = f, read_buffer = r, payload_in_flight = p\<rparr>"

definition message ::
  "u32 option \<Rightarrow> u32 option \<Rightarrow> bytes option \<Rightarrow> u32 option \<Rightarrow> NetworkTunnelTxRx" where
  "message i a p r =
     \<lparr>id_field = i, ack_id_field = a, payload_field = p, remaining_bytes_field = r\<rparr>"

definition env_ok :: environment where
  "env_ok = \<lparr>write_result = (\<lambda>b. int (length b)), Send_result = (\<lambda>r. Success)\<rparr>"

section \<open>Properties\<close>

subsection \<open>The codec\<close>

lemma unat_ucast_drop_bit:
  "unat (ucast (drop_bit k (v :: u32)) :: u8) = unat v div 2 ^ k mod 256"
proof -
  have "unat (ucast (drop_bit k v) :: u8) = drop_bit k (unat v) mod 256"
    by (simp add: unsigned_ucast_eq unat_drop_bit_eq take_bit_eq_mod)
  then show ?thesis
    by (simp add: drop_bit_eq_div)
qed

lemma ucast_drop_bit_digit:
  "(ucast (drop_bit k (v :: u32)) :: u8) = of_nat (unat v div 2 ^ k mod 256)"
proof -
  have "unat (of_nat (unat v div 2 ^ k mod 256) :: u8) = unat v div 2 ^ k mod 256"
    by (simp add: unat_of_nat)
  then have "unat (ucast (drop_bit k v) :: u8) = unat (of_nat (unat v div 2 ^ k mod 256) :: u8)"
    by (simp only: unat_ucast_drop_bit)
  then show ?thesis
    by (simp only: word_unat_eq_iff)
qed

lemma EncodeValue_spec: "EncodeValue v = little_endian_spec v"
  using ucast_drop_bit_digit [of 0 v] ucast_drop_bit_digit [of 8 v]
    ucast_drop_bit_digit [of 16 v] ucast_drop_bit_digit [of 24 v]
  by (simp add: EncodeValue_def little_endian_spec_def)

lemma base256_digits:
  fixes x :: nat
  assumes "x < 4294967296"
  shows "x mod 256 + 256 * (x div 256 mod 256 + 256 * (x div 65536 mod 256
        + 256 * (x div 16777216 mod 256))) = x"
proof -
  define a where "a = x div 256"
  define b where "b = a div 256"
  define c where "c = b div 256"
  have ab: "x div 65536 = b" "x div 16777216 = c"
    by (simp_all add: a_def b_def c_def div_mult2_eq)
  have "c < 256"
    using assms unfolding ab(2) [symmetric] by simp
  then have c: "c mod 256 = c" by simp
  have "x = x mod 256 + 256 * a" by (simp add: a_def)
  moreover have "a = a mod 256 + 256 * b" by (simp add: b_def)
  moreover have "b = b mod 256 + 256 * c" by (simp add: c_def)
  ultimately show ?thesis
    unfolding ab c a_def [symmetric] by simp
qed

lemma little_endian_spec_value: "little_endian_value (little_endian_spec v) = unat v"
proof -
  have lt: "unat v < 4294967296"
    using unsigned_less [of v, where 'a = nat] by simp
  have u: "\<And>n. n < 256 \<Longrightarrow> unat (of_nat n :: u8) = n"
    by (simp add: unat_of_nat)
  have "little_endian_value (little_endian_spec v) =
      unat v mod 256 + 256 * (unat v div 256 mod 256 + 256 * (unat v div 65536 mod 256
        + 256 * (unat v div 16777216 mod 256)))"
    by (simp add: little_endian_spec_def u)
  also have "\<dots> = unat v"
    using lt by (rule base256_digits)
  finally show ?thesis .
qed

text \<open>
  C9. For every 32-bit value \<open>v\<close>, \<open>EncodeValue v\<close> is exactly four bytes, they are the
  base-256 digits of \<open>v\<close> with the least significant first (the little-endian
  representation, which reads back as \<open>v\<close>), and \<open>EncodeValue 0x01020304\<close> is
  \<open>04 03 02 01\<close>.
\<close>

theorem EncodeValue_little_endian:
  "length (EncodeValue v) = 4
   \<and> EncodeValue v = little_endian_spec v
   \<and> little_endian_value (EncodeValue v) = unat v
   \<and> EncodeValue 0x01020304 = [0x04, 0x03, 0x02, 0x01]"
proof -
  have "length (EncodeValue v) = 4"
    by (simp add: EncodeValue_def)
  moreover have "little_endian_value (EncodeValue v) = unat v"
    by (simp only: EncodeValue_spec little_endian_spec_value)
  moreover have "EncodeValue 0x01020304 = [0x04, 0x03, 0x02, 0x01]"
    by (simp add: EncodeValue_def drop_bit_eq_div)
  ultimately show ?thesis
    using EncodeValue_spec by blast
qed

subsection \<open>The parts of the tunnel handler\<close>

lemma ValidateID_first:
  "last_ack_id s = None \<Longrightarrow> ValidateID s i = (True, s\<lparr>last_ack_id := Some i\<rparr>)"
  by (simp add: ValidateID_def)

lemma ValidateID_next:
  "last_ack_id s = Some l \<Longrightarrow> i = l + 1 \<Longrightarrow> ValidateID s i = (True, s\<lparr>last_ack_id := Some i\<rparr>)"
  by (simp add: ValidateID_def)


lemma ValidateID_True:
  "fst (ValidateID s i) \<Longrightarrow> ValidateID s i = (True, s\<lparr>last_ack_id := Some i\<rparr>)"
  by (simp add: ValidateID_def split: option.splits if_splits)

lemma ValidateID_False:
  "\<not> fst (ValidateID s i) \<Longrightarrow> ValidateID s i = (False, s) \<and> last_ack_id s \<noteq> None"
  by (auto simp add: ValidateID_def split: option.splits if_splits)

lemma receive_side_invalid:
  assumes "\<not> fst (ValidateID s (tunnel_id tunnel))"
  shows "\<exists>l. last_ack_id s = Some l \<and> receive_side env s tunnel =
           Inr (s, [LOGE ''Received non-sequential packet: %u vs %u''
                      [unat l, unat (tunnel_id tunnel)]])"
proof -
  from ValidateID_False [OF assms] obtain l where
    v: "ValidateID s (tunnel_id tunnel) = (False, s)" and l: "last_ack_id s = Some l"
    by auto
  show ?thesis
    by (simp add: receive_side_def v l optional_value_def)
qed

lemma receive_side_valid:
  assumes "fst (ValidateID s (tunnel_id tunnel))"
  shows "receive_side env s tunnel =
     Inr (if has_payload tunnel then
            if tunnel_remaining_bytes tunnel = 0 then
              (s\<lparr>last_ack_id := Some (tunnel_id tunnel), frame_buffer := []\<rparr>,
               [TunnelWrite (frame_buffer s @ tunnel_payload tunnel),
                LOGI ''Writing %zu bytes to the tunnel''
                  [length (frame_buffer s @ tunnel_payload tunnel)]]
               @ (if write_result env (frame_buffer s @ tunnel_payload tunnel) < 0
                  then [LOGE ''Failed to write to tunnel %s (%d)'' []] else []))
            else (s\<lparr>last_ack_id := Some (tunnel_id tunnel),
                     frame_buffer := frame_buffer s @ tunnel_payload tunnel\<rparr>, [])
          else (s\<lparr>last_ack_id := Some (tunnel_id tunnel)\<rparr>, []))"
  by (simp add: receive_side_def ValidateID_True [OF assms] Let_def)

lemma receive_side_frame:
  "\<exists>s1 es1. receive_side env s tunnel = Inr (s1, es1)
      \<and> last_ack_id s1 \<noteq> None
      \<and> (last_ack_id s = None \<longrightarrow> last_ack_id s1 = Some (tunnel_id tunnel))
      \<and> next_id s1 = next_id s \<and> read_buffer s1 = read_buffer s
      \<and> payload_in_flight s1 = payload_in_flight s \<and> sent es1 = []"
proof (cases "fst (ValidateID s (tunnel_id tunnel))")
  case True
  show ?thesis
    by (simp add: receive_side_valid [OF True])
next
  case False
  from receive_side_invalid [OF False, of env] show ?thesis
    by auto
qed

lemma handle_ack_frame:
  "last_ack_id (fst (handle_ack s tunnel)) = last_ack_id s
   \<and> frame_buffer (fst (handle_ack s tunnel)) = frame_buffer s
   \<and> sent (snd (handle_ack s tunnel)) = []
   \<and> written (snd (handle_ack s tunnel)) = []"
  by (simp add: handle_ack_def AdvanceID_def Let_def split: list.splits)

lemma handle_ack_mismatch:
  "has_ack_id tunnel \<Longrightarrow> tunnel_ack_id tunnel \<noteq> next_id s \<Longrightarrow>
     handle_ack s tunnel = (s, [LOGE ''Primary radio failed to ack, retransmitting'' []])"
  by (simp add: handle_ack_def)

lemma handle_ack_absent:
  "\<not> has_ack_id tunnel \<Longrightarrow> handle_ack s tunnel = (s, [])"
  by (simp add: handle_ack_def)

lemma handle_ack_match:
  "has_ack_id tunnel \<Longrightarrow> tunnel_ack_id tunnel = next_id s \<Longrightarrow>
     handle_ack s tunnel =
       (if payload_in_flight s then
          s\<lparr>next_id := next_id s + 1,
            read_buffer :=
              (case read_buffer s of
                 [] \<Rightarrow> []
               | D # rest \<Rightarrow>
                   if drop (min (length D) 8) D = [] then rest
                   else drop (min (length D) 8) D # rest),
            payload_in_flight := False\<rparr>
        else s\<lparr>next_id := next_id s + 1\<rparr>, [])"
  by (cases "read_buffer s") (simp_all add: handle_ack_def AdvanceID_def Let_def)

lemma compose_response_eq:
  "last_ack_id s = Some l \<Longrightarrow>
     compose_response s =
       Inr (case read_buffer s of
              [] \<Rightarrow> (s, \<lparr>id_field = Some (next_id s), ack_id_field = Some l,
                         payload_field = None, remaining_bytes_field = None\<rparr>)
            | D # rest \<Rightarrow>
                (s\<lparr>payload_in_flight := True\<rparr>,
                 \<lparr>id_field = Some (next_id s), ack_id_field = Some l,
                  payload_field = Some (take (min (length D) 8) D),
                  remaining_bytes_field = Some (of_nat (length D - min (length D) 8))\<rparr>))"
  by (simp add: compose_response_def optional_value_def Let_def split: list.splits)

lemma HandleNetworkTunnelTxRx_accepted:
  assumes "has_id tunnel" and "last_ack_id s = None \<or> has_ack_id tunnel"
    and "receive_side env s tunnel = Inr (s1, es1)"
    and "handle_ack s1 tunnel = (s2, es2)"
    and "compose_response s2 = Inr (s3, r)"
  shows "HandleNetworkTunnelTxRx env s tunnel =
     Inr (s3, es1 @ es2 @ [Send (Response_NetworkTunnelTxRx r)]
              @ (if Send_result env (Response_NetworkTunnelTxRx r) \<noteq> Success
                 then [LOGE ''Failed to send network tunnel txrx response'' []] else []))"
  using assms by (auto simp add: HandleNetworkTunnelTxRx_def Let_def)

lemma HandleNetworkTunnelTxRx_rejected:
  assumes "\<not> has_id tunnel \<or> (last_ack_id s \<noteq> None \<and> \<not> has_ack_id tunnel)"
  shows "HandleNetworkTunnelTxRx env s tunnel = Inr (s, [LOGE ''Missing tunnel fields'' []])"
  using assms by (auto simp add: HandleNetworkTunnelTxRx_def)

lemma sent_append: "sent (xs @ ys) = sent xs @ sent ys"
  by (induction xs rule: sent.induct) simp_all

lemma written_append: "written (xs @ ys) = written xs @ written ys"
  by (induction xs rule: written.induct) simp_all

lemma compose_response_frame:
  assumes "compose_response s = Inr (s', r)"
  shows "next_id s' = next_id s \<and> read_buffer s' = read_buffer s
     \<and> frame_buffer s' = frame_buffer s \<and> last_ack_id s' = last_ack_id s
     \<and> (payload_in_flight s' \<longleftrightarrow> payload_in_flight s \<or> read_buffer s \<noteq> [])
     \<and> id_field r = Some (next_id s) \<and> ack_id_field r = last_ack_id s
     \<and> payload_field r =
         (case read_buffer s of [] \<Rightarrow> None | D # rest \<Rightarrow> Some (take (min (length D) 8) D))"
  using assms
  by (auto simp add: compose_response_def optional_value_def Let_def
      split: option.splits list.splits)

lemma receive_side_keeps:
  assumes "receive_side env s tunnel = Inr (s1, es1)"
  shows "next_id s1 = next_id s \<and> read_buffer s1 = read_buffer s
     \<and> payload_in_flight s1 = payload_in_flight s \<and> sent es1 = []"
  using receive_side_frame [of env s tunnel] assms by auto

lemma handle_ack_next_id:
  "next_id (fst (handle_ack s tunnel)) =
     (if has_ack_id tunnel \<and> tunnel_ack_id tunnel = next_id s
      then next_id s + 1 else next_id s)"
  by (simp add: handle_ack_def AdvanceID_def Let_def split: list.splits)

lemma HandleNetworkTunnelTxRx_run:
  assumes "has_id tunnel" and "last_ack_id s = None \<or> has_ack_id tunnel"
  obtains s1 es1 s2 es2 s3 r l tail where
    "receive_side env s tunnel = Inr (s1, es1)"
    "handle_ack s1 tunnel = (s2, es2)"
    "last_ack_id s2 = Some l"
    "compose_response s2 = Inr (s3, r)"
    "HandleNetworkTunnelTxRx env s tunnel =
       Inr (s3, es1 @ es2 @ Send (Response_NetworkTunnelTxRx r) # tail)"
    "sent tail = []" "written tail = []"
proof -
  from receive_side_frame [of env s tunnel] obtain s1 es1 where
    rs: "receive_side env s tunnel = Inr (s1, es1)" and l1: "last_ack_id s1 \<noteq> None"
    by blast
  obtain s2 es2 where ha: "handle_ack s1 tunnel = (s2, es2)"
    by (cases "handle_ack s1 tunnel")
  from handle_ack_frame [of s1 tunnel] ha l1 obtain l where l: "last_ack_id s2 = Some l"
    by auto
  from compose_response_eq [OF l] obtain s3 r where cr: "compose_response s2 = Inr (s3, r)"
    by (cases "read_buffer s2") auto
  define tail where "tail =
    (if Send_result env (Response_NetworkTunnelTxRx r) \<noteq> Success
     then [LOGE ''Failed to send network tunnel txrx response'' []] else [])"
  have "sent tail = []" "written tail = []"
    by (simp_all add: tail_def)
  moreover from HandleNetworkTunnelTxRx_accepted [OF assms rs ha cr]
  have "HandleNetworkTunnelTxRx env s tunnel =
       Inr (s3, es1 @ es2 @ Send (Response_NetworkTunnelTxRx r) # tail)"
    by (simp add: tail_def)
  ultimately show thesis
    using rs ha l cr that by blast
qed

lemma handle_ack_match_effects: "has_ack_id tunnel \<Longrightarrow> tunnel_ack_id tunnel = next_id s \<Longrightarrow>
      next_id (fst (handle_ack s tunnel)) = next_id s + 1
      \<and> (payload_in_flight s \<longrightarrow>
            \<not> payload_in_flight (fst (handle_ack s tunnel))
            \<and> read_buffer (fst (handle_ack s tunnel)) =
                (case read_buffer s of
                   [] \<Rightarrow> []
                 | D # rest \<Rightarrow>
                     if drop (min (length D) 8) D = [] then rest
                     else drop (min (length D) 8) D # rest))
      \<and> (\<not> payload_in_flight s \<longrightarrow>
            fst (handle_ack s tunnel) = s\<lparr>next_id := next_id s + 1\<rparr>)"
    by (simp add: handle_ack_match)

lemma handle_ack_otherwise: "\<not> (has_ack_id tunnel \<and> tunnel_ack_id tunnel = next_id s) \<Longrightarrow>
        fst (handle_ack s tunnel) = s"
    by (cases "has_ack_id tunnel") (simp_all add: handle_ack_mismatch handle_ack_absent)

lemma HandleNetworkTunnelTxRx_next_id: "\<exists>s' es. HandleNetworkTunnelTxRx env s tunnel = Inr (s', es)
         \<and> next_id s' =
             (if has_id tunnel \<and> has_ack_id tunnel \<and> tunnel_ack_id tunnel = next_id s
              then next_id s + 1 else next_id s)"
  proof (cases "\<not> has_id tunnel \<or> (last_ack_id s \<noteq> None \<and> \<not> has_ack_id tunnel)")
    case True
    have "HandleNetworkTunnelTxRx env s tunnel = Inr (s, [LOGE ''Missing tunnel fields'' []])"
      using True by (rule HandleNetworkTunnelTxRx_rejected)
    moreover have "next_id s = (if has_id tunnel \<and> has_ack_id tunnel \<and> tunnel_ack_id tunnel = next_id s
              then next_id s + 1 else next_id s)"
    proof (cases "has_id tunnel")
      case False then show ?thesis by simp
    next
      case h: True
      with True have "\<not> has_ack_id tunnel" by simp
      then show ?thesis by simp
    qed
    ultimately show ?thesis
      by (intro exI conjI)
  next
    case False
    then have h: "has_id tunnel" "last_ack_id s = None \<or> has_ack_id tunnel"
      by auto
    from h obtain s1 es1 s2 es2 s3 r tail where
      rs: "receive_side env s tunnel = Inr (s1, es1)" and
      ha: "handle_ack s1 tunnel = (s2, es2)" and
      cr: "compose_response s2 = Inr (s3, r)" and
      run: "HandleNetworkTunnelTxRx env s tunnel =
         Inr (s3, es1 @ es2 @ Send (Response_NetworkTunnelTxRx r) # tail)"
      by (rule HandleNetworkTunnelTxRx_run)
    have k1: "next_id s1 = next_id s"
      using receive_side_keeps [OF rs] by simp
    have k3: "next_id s3 = next_id s2"
      using compose_response_frame [OF cr] by simp
    have "next_id s2 =
        (if has_ack_id tunnel \<and> tunnel_ack_id tunnel = next_id s1
         then next_id s1 + 1 else next_id s1)"
      using handle_ack_next_id [of s1 tunnel] ha by simp
    then have "next_id s3 = (if has_id tunnel \<and> has_ack_id tunnel \<and> tunnel_ack_id tunnel = next_id s
              then next_id s + 1 else next_id s)"
      using k1 k3 h(1) by simp
    with run show ?thesis
      by (intro exI conjI)
  qed

lemma handle_ack_read_buffer:
  "read_buffer (fst (handle_ack s tunnel)) =
     (if has_ack_id tunnel \<and> tunnel_ack_id tunnel = next_id s \<and> payload_in_flight s
      then (case read_buffer s of
              [] \<Rightarrow> []
            | D # rest \<Rightarrow>
                if drop (min (length D) 8) D = [] then rest
                else drop (min (length D) 8) D # rest)
      else read_buffer s)"
  by (simp add: handle_ack_def AdvanceID_def Let_def split: list.splits)

lemma handle_ack_payload_in_flight:
  "payload_in_flight (fst (handle_ack s tunnel)) \<longleftrightarrow>
     payload_in_flight s \<and> \<not> (has_ack_id tunnel \<and> tunnel_ack_id tunnel = next_id s)"
  by (simp add: handle_ack_def AdvanceID_def Let_def split: list.splits)

lemma compose_response_remaining:
  assumes "compose_response s = Inr (s', r)"
  shows "remaining_bytes_field r =
     (case read_buffer s of
        [] \<Rightarrow> None
      | D # rest \<Rightarrow> Some (of_nat (length D - min (length D) 8)))"
  using assms
  by (auto simp add: compose_response_def optional_value_def Let_def
      split: option.splits list.splits)

lemma HandleNetworkTunnelTxRx_outcome:
  assumes "has_id tunnel" and "last_ack_id s = None \<or> has_ack_id tunnel"
  shows "\<exists>s' es r.
      HandleNetworkTunnelTxRx env s tunnel = Inr (s', es)
      \<and> sent es = [Response_NetworkTunnelTxRx r]
      \<and> next_id s' =
          (if has_ack_id tunnel \<and> tunnel_ack_id tunnel = next_id s
           then next_id s + 1 else next_id s)
      \<and> read_buffer s' =
          (if has_ack_id tunnel \<and> tunnel_ack_id tunnel = next_id s \<and> payload_in_flight s
           then (case read_buffer s of
                   [] \<Rightarrow> []
                 | D # rest \<Rightarrow>
                     if drop (min (length D) 8) D = [] then rest
                     else drop (min (length D) 8) D # rest)
           else read_buffer s)
      \<and> (payload_in_flight s' \<longleftrightarrow>
            (payload_in_flight s \<and> \<not> (has_ack_id tunnel \<and> tunnel_ack_id tunnel = next_id s))
            \<or> read_buffer s' \<noteq> [])
      \<and> id_field r = Some (next_id s')
      \<and> payload_field r =
          (case read_buffer s' of
             [] \<Rightarrow> None
           | D # rest \<Rightarrow> Some (take (min (length D) 8) D))
      \<and> remaining_bytes_field r =
          (case read_buffer s' of
             [] \<Rightarrow> None
           | D # rest \<Rightarrow> Some (of_nat (length D - min (length D) 8)))"
proof -
  from assms obtain s1 es1 s2 es2 s3 r l tail where
    rs: "receive_side env s tunnel = Inr (s1, es1)" and
    ha: "handle_ack s1 tunnel = (s2, es2)" and
    l: "last_ack_id s2 = Some l" and
    cr: "compose_response s2 = Inr (s3, r)" and
    run: "HandleNetworkTunnelTxRx env s tunnel =
       Inr (s3, es1 @ es2 @ Send (Response_NetworkTunnelTxRx r) # tail)" and
    tail: "sent tail = []"
    by (rule HandleNetworkTunnelTxRx_run)
  note k1 = receive_side_keeps [OF rs]
  have s2: "s2 = fst (handle_ack s1 tunnel)"
    using ha by simp
  have k2: "sent es2 = []"
    using handle_ack_frame [of s1 tunnel] ha by simp
  note k3 = compose_response_frame [OF cr]
  have n2: "next_id s2 =
      (if has_ack_id tunnel \<and> tunnel_ack_id tunnel = next_id s
       then next_id s + 1 else next_id s)"
    unfolding s2 handle_ack_next_id using k1 by simp
  have r2: "read_buffer s2 =
      (if has_ack_id tunnel \<and> tunnel_ack_id tunnel = next_id s \<and> payload_in_flight s
       then (case read_buffer s of
               [] \<Rightarrow> []
             | D # rest \<Rightarrow>
                 if drop (min (length D) 8) D = [] then rest
                 else drop (min (length D) 8) D # rest)
       else read_buffer s)"
    unfolding s2 handle_ack_read_buffer using k1 by simp
  have p2: "payload_in_flight s2 \<longleftrightarrow>
      payload_in_flight s \<and> \<not> (has_ack_id tunnel \<and> tunnel_ack_id tunnel = next_id s)"
    unfolding s2 handle_ack_payload_in_flight using k1 by simp
  note k4 = compose_response_remaining [OF cr]
  show ?thesis
  proof (intro exI conjI)
    show "HandleNetworkTunnelTxRx env s tunnel =
       Inr (s3, es1 @ es2 @ Send (Response_NetworkTunnelTxRx r) # tail)"
      by (rule run)
    show "sent (es1 @ es2 @ Send (Response_NetworkTunnelTxRx r) # tail)
        = [Response_NetworkTunnelTxRx r]"
      using k1 k2 tail by (simp add: sent_append)
    show "next_id s3 =
      (if has_ack_id tunnel \<and> tunnel_ack_id tunnel = next_id s
       then next_id s + 1 else next_id s)"
      using k3 n2 by simp
    show "read_buffer s3 =
      (if has_ack_id tunnel \<and> tunnel_ack_id tunnel = next_id s \<and> payload_in_flight s
       then (case read_buffer s of
               [] \<Rightarrow> []
             | D # rest \<Rightarrow>
                 if drop (min (length D) 8) D = [] then rest
                 else drop (min (length D) 8) D # rest)
       else read_buffer s)"
      using k3 r2 by simp
    show "payload_in_flight s3 \<longleftrightarrow>
        (payload_in_flight s \<and> \<not> (has_ack_id tunnel \<and> tunnel_ack_id tunnel = next_id s))
        \<or> read_buffer s3 \<noteq> []"
      using k3 p2 by simp
    show "id_field r = Some (next_id s3)"
      using k3 by simp
    show "payload_field r =
        (case read_buffer s3 of
           [] \<Rightarrow> None
         | D # rest \<Rightarrow> Some (take (min (length D) 8) D))"
      using k3 by simp
    show "remaining_bytes_field r =
        (case read_buffer s3 of
           [] \<Rightarrow> None
         | D # rest \<Rightarrow> Some (of_nat (length D - min (length D) 8)))"
      using k3 k4 by simp
  qed
qed

lemma unat_of_nat_u32: "n < 2 ^ 32 \<Longrightarrow> unat (of_nat n :: u32) = n"
  by (simp add: unat_of_nat)

lemma fragment_fields:
  assumes "payload_field r = Some (take (min (length D) 8) D)"
    and "remaining_bytes_field r = Some (of_nat (length D - min (length D) 8))"
  shows "payload_field r = Some (take (min 8 (length D)) D)
     \<and> length (tunnel_payload r) = min 8 (length D)
     \<and> tunnel_remaining_bytes r = of_nat (length D) - of_nat (length (tunnel_payload r))
     \<and> (length D < 2 ^ 32 \<longrightarrow>
          unat (tunnel_remaining_bytes r) = length D - length (tunnel_payload r))"
proof -
  define n where "n = min (length D) 8"
  have n: "n = min 8 (length D)" "n \<le> length D"
    by (simp_all add: n_def)
  have p: "tunnel_payload r = take n D"
    using assms(1) by (simp add: tunnel_payload_def n_def)
  have len: "length (tunnel_payload r) = n"
    unfolding p using n(2) by simp
  have rb: "tunnel_remaining_bytes r = (of_nat (length D - n) :: u32)"
    using assms(2) by (simp only: tunnel_remaining_bytes_def n_def option.case)
  have w: "tunnel_remaining_bytes r = of_nat (length D) - of_nat n"
    unfolding rb using n(2) by (rule of_nat_diff)
  have u: "unat (tunnel_remaining_bytes r) = length D - n" if "length D < 2 ^ 32"
  proof -
    from that have "length D - n < 2 ^ 32"
      by simp
    then show ?thesis
      unfolding rb by (rule unat_of_nat_u32)
  qed
  show ?thesis
  proof (intro conjI impI)
    show "payload_field r = Some (take (min 8 (length D)) D)"
      using assms(1) by (simp add: min.commute)
    show "length (tunnel_payload r) = min 8 (length D)"
      unfolding n(1) [symmetric] by (rule len)
    show "tunnel_remaining_bytes r = of_nat (length D) - of_nat (length (tunnel_payload r))"
      unfolding len by (rule w)
    show "unat (tunnel_remaining_bytes r) = length D - length (tunnel_payload r)"
      if "length D < 2 ^ 32"
      unfolding len using that by (rule u)
  qed
qed

subsection \<open>Missing fields and the acknowledgement carried by a response\<close>

text \<open>
  C6. A tunnel request without \<open>id\<close>, or without \<open>ack_id\<close> while the endpoint has a
  \<open>last_ack_id\<close>, only logs \<open>Missing tunnel fields\<close>: the endpoint is returned as it was
  and the trace holds no response. A request that has its \<open>id\<close> and no \<open>ack_id\<close> is
  answered with a response iff the endpoint has no \<open>last_ack_id\<close>.
\<close>

theorem missing_tunnel_fields:
  "(\<not> has_id tunnel \<or> (last_ack_id s \<noteq> None \<and> \<not> has_ack_id tunnel) \<longrightarrow>
      HandleNetworkTunnelTxRx env s tunnel = Inr (s, [LOGE ''Missing tunnel fields'' []])
      \<and> sent [LOGE ''Missing tunnel fields'' []] = [])
   \<and> (has_id tunnel \<and> \<not> has_ack_id tunnel \<longrightarrow>
        ((\<exists>s' es r. HandleNetworkTunnelTxRx env s tunnel = Inr (s', es) \<and> sent es = [r])
          \<longleftrightarrow> last_ack_id s = None))"
proof (intro conjI impI)
  assume "\<not> has_id tunnel \<or> (last_ack_id s \<noteq> None \<and> \<not> has_ack_id tunnel)"
  then show "HandleNetworkTunnelTxRx env s tunnel = Inr (s, [LOGE ''Missing tunnel fields'' []])"
    by (rule HandleNetworkTunnelTxRx_rejected)
next
  show "sent [LOGE ''Missing tunnel fields'' []] = []"
    by simp
next
  assume a: "has_id tunnel \<and> \<not> has_ack_id tunnel"
  show "(\<exists>s' es r. HandleNetworkTunnelTxRx env s tunnel = Inr (s', es) \<and> sent es = [r])
          \<longleftrightarrow> last_ack_id s = None"
  proof (cases "last_ack_id s")
    case None
    with a have "has_id tunnel" "last_ack_id s = None \<or> has_ack_id tunnel"
      by simp_all
    then obtain s1 es1 s2 es2 s3 r tail where
      rs: "receive_side env s tunnel = Inr (s1, es1)" and
      ha: "handle_ack s1 tunnel = (s2, es2)" and
      run: "HandleNetworkTunnelTxRx env s tunnel =
         Inr (s3, es1 @ es2 @ Send (Response_NetworkTunnelTxRx r) # tail)" and
      tail: "sent tail = []"
      by (rule HandleNetworkTunnelTxRx_run)
    from receive_side_frame [of env s tunnel] rs have "sent es1 = []"
      by auto
    moreover from handle_ack_frame [of s1 tunnel] ha have "sent es2 = []"
      by auto
    ultimately have "sent (es1 @ es2 @ Send (Response_NetworkTunnelTxRx r) # tail)
        = [Response_NetworkTunnelTxRx r]"
      by (simp add: sent_append tail)
    with run None show ?thesis
      by simp
  next
    case (Some l)
    with a have "HandleNetworkTunnelTxRx env s tunnel = Inr (s, [LOGE ''Missing tunnel fields'' []])"
      by (simp add: HandleNetworkTunnelTxRx_rejected)
    with Some show ?thesis
      by simp
  qed
qed

theorem missing_tunnel_fields_witness:
  "\<not> has_ack_id (message (Some 5) None None None)
   \<and> has_id (message (Some 5) None None None)
   \<and> last_ack_id (endpoint 0 (Some 3) [] [] False) \<noteq> None
   \<and> HandleNetworkTunnelTxRx env_ok (endpoint 0 (Some 3) [] [] False)
        (message (Some 5) None None None)
      = Inr (endpoint 0 (Some 3) [] [] False, [LOGE ''Missing tunnel fields'' []])
   \<and> \<not> (\<exists>s' es r. HandleNetworkTunnelTxRx env_ok (endpoint 0 (Some 3) [] [] False)
                    (message (Some 5) None None None) = Inr (s', es) \<and> sent es = [r])
   \<and> last_ack_id (endpoint 0 None [] [] False) = None
   \<and> (\<exists>s' es r. HandleNetworkTunnelTxRx env_ok (endpoint 0 None [] [] False)
                    (message (Some 5) None None None) = Inr (s', es) \<and> sent es = [r])"
  using missing_tunnel_fields [of "message (Some 5) None None None"
      "endpoint 0 (Some 3) [] [] False" env_ok]
    missing_tunnel_fields [of "message (Some 5) None None None"
      "endpoint 0 None [] [] False" env_ok]
  by (simp add: has_id_def has_ack_id_def message_def endpoint_def)

text \<open>
  C10. A tunnel request that passes the check for missing fields never makes
  \<open>last_ack_id_.value()\<close> throw: the handler returns, it sends exactly one tunnel
  response, \<open>last_ack_id\<close> is present afterwards and is the response's \<open>ack_id\<close>; on the
  first message it is the received id.
\<close>

theorem tunnel_response_ack_id:
  assumes "has_id tunnel" and "last_ack_id s = None \<or> has_ack_id tunnel"
  shows "\<exists>s' es r. HandleNetworkTunnelTxRx env s tunnel = Inr (s', es)
           \<and> sent es = [Response_NetworkTunnelTxRx r]
           \<and> last_ack_id s' \<noteq> None
           \<and> ack_id_field r = last_ack_id s'
           \<and> (last_ack_id s = None \<longrightarrow> last_ack_id s' = Some (tunnel_id tunnel))"
proof -
  from assms obtain s1 es1 s2 es2 s3 r l tail where
    rs: "receive_side env s tunnel = Inr (s1, es1)" and
    ha: "handle_ack s1 tunnel = (s2, es2)" and
    l: "last_ack_id s2 = Some l" and
    cr: "compose_response s2 = Inr (s3, r)" and
    run: "HandleNetworkTunnelTxRx env s tunnel =
       Inr (s3, es1 @ es2 @ Send (Response_NetworkTunnelTxRx r) # tail)" and
    tail: "sent tail = []"
    by (rule HandleNetworkTunnelTxRx_run)
  from receive_side_frame [of env s tunnel] rs have
    s1: "sent es1 = []" "last_ack_id s = None \<longrightarrow> last_ack_id s1 = Some (tunnel_id tunnel)"
    by auto
  from handle_ack_frame [of s1 tunnel] ha have
    s2: "sent es2 = []" "last_ack_id s2 = last_ack_id s1"
    by auto
  from compose_response_eq [OF l] cr l have
    s3: "last_ack_id s3 = Some l" "ack_id_field r = Some l"
    by (auto split: list.splits)
  show ?thesis
  proof (intro exI conjI)
    show "HandleNetworkTunnelTxRx env s tunnel =
       Inr (s3, es1 @ es2 @ Send (Response_NetworkTunnelTxRx r) # tail)"
      by (rule run)
    show "sent (es1 @ es2 @ Send (Response_NetworkTunnelTxRx r) # tail)
        = [Response_NetworkTunnelTxRx r]"
      by (simp add: sent_append s1 s2 tail)
    show "last_ack_id s3 \<noteq> None" "ack_id_field r = last_ack_id s3"
      using s3 by simp_all
    show "last_ack_id s = None \<longrightarrow> last_ack_id s3 = Some (tunnel_id tunnel)"
      using s1 s2 s3 l by simp
  qed
qed

theorem tunnel_response_ack_id_witness:
  "has_id (message (Some 5) None None None)
   \<and> last_ack_id (endpoint 0 None [] [] False) = None
   \<and> (\<exists>s' es r. HandleNetworkTunnelTxRx env_ok (endpoint 0 None [] [] False)
                    (message (Some 5) None None None) = Inr (s', es)
           \<and> sent es = [Response_NetworkTunnelTxRx r]
           \<and> last_ack_id s' \<noteq> None
           \<and> ack_id_field r = last_ack_id s'
           \<and> last_ack_id s' = Some 5)"
  using tunnel_response_ack_id [of "message (Some 5) None None None"
      "endpoint 0 None [] [] False" env_ok]
  by (simp add: has_id_def tunnel_id_def message_def endpoint_def)

subsection \<open>Ping\<close>

text \<open>
  C7. \<open>HandlePing\<close> sends exactly one \<open>Ping\<close> response; its value is present iff the
  request's value is present, and is then the request's value.
\<close>

theorem HandlePing_echoes_value:
  "\<exists>r. sent (HandlePing env ping) = [Response_Ping r]
        \<and> (has_value r \<longleftrightarrow> has_value ping)
        \<and> (has_value ping \<longrightarrow> ping_value r = ping_value ping)"
  by (cases "value_field ping")
    (simp_all add: HandlePing_def Let_def has_value_def ping_value_def)

theorem HandlePing_echoes_value_witness:
  "has_value \<lparr>value_field = Some 0xDEADBEEF\<rparr>
   \<and> (\<exists>r. sent (HandlePing env_ok \<lparr>value_field = Some 0xDEADBEEF\<rparr>) = [Response_Ping r]
          \<and> has_value r \<and> ping_value r = 0xDEADBEEF)
   \<and> \<not> has_value \<lparr>value_field = None\<rparr>
   \<and> (\<exists>r. sent (HandlePing env_ok \<lparr>value_field = None\<rparr>) = [Response_Ping r]
          \<and> \<not> has_value r)"
  using HandlePing_echoes_value [of env_ok "\<lparr>value_field = Some 0xDEADBEEF\<rparr>"]
    HandlePing_echoes_value [of env_ok "\<lparr>value_field = None\<rparr>"]
  by (simp add: has_value_def ping_value_def)

subsection \<open>Acknowledgements and fragments\<close>

text \<open>
  C2, as amended. A tunnel message whose \<open>ack_id\<close> differs from \<open>next_id\<close>: the
  handler leaves \<open>next_id\<close> and the whole read buffer, so also its front datagram, as
  they were. \<open>payload_in_flight\<close> is never cleared by it: afterwards it is true iff it
  was true before or the response carries a fragment, which it does whenever the
  message has its \<open>id\<close> and the read buffer is not empty. That response carries the same
  \<open>id\<close> and the first \<open>min(8, |D|)\<close> bytes of the unchanged front datagram \<open>D\<close>: a
  fragment in flight is sent again.
\<close>

theorem ack_mismatch_retransmits:
  assumes "has_ack_id tunnel" and "tunnel_ack_id tunnel \<noteq> next_id s"
  shows "\<exists>s' es.
      HandleNetworkTunnelTxRx env s tunnel = Inr (s', es)
      \<and> next_id s' = next_id s
      \<and> read_buffer s' = read_buffer s
      \<and> (payload_in_flight s' \<longleftrightarrow>
            payload_in_flight s \<or> (has_id tunnel \<and> read_buffer s \<noteq> []))
      \<and> (has_id tunnel \<longrightarrow>
           (\<exists>r. sent es = [Response_NetworkTunnelTxRx r]
              \<and> id_field r = Some (next_id s)
              \<and> payload_field r =
                  (case read_buffer s of
                     [] \<Rightarrow> None
                   | D # rest \<Rightarrow> Some (take (min (length D) 8) D))))"
proof (cases "has_id tunnel")
  case False
  then have "HandleNetworkTunnelTxRx env s tunnel = Inr (s, [LOGE ''Missing tunnel fields'' []])"
    by (simp add: HandleNetworkTunnelTxRx_rejected)
  with False show ?thesis
    by simp
next
  case True
  have h: "last_ack_id s = None \<or> has_ack_id tunnel"
    using assms(1) by simp
  from HandleNetworkTunnelTxRx_outcome [OF True h, of env] obtain s' es r where
    run: "HandleNetworkTunnelTxRx env s tunnel = Inr (s', es)" and
    sent: "sent es = [Response_NetworkTunnelTxRx r]" and
    n: "next_id s' =
          (if has_ack_id tunnel \<and> tunnel_ack_id tunnel = next_id s
           then next_id s + 1 else next_id s)" and
    rb: "read_buffer s' =
          (if has_ack_id tunnel \<and> tunnel_ack_id tunnel = next_id s \<and> payload_in_flight s
           then (case read_buffer s of
                   [] \<Rightarrow> []
                 | D # rest \<Rightarrow>
                     if drop (min (length D) 8) D = [] then rest
                     else drop (min (length D) 8) D # rest)
           else read_buffer s)" and
    p: "payload_in_flight s' \<longleftrightarrow>
            (payload_in_flight s \<and> \<not> (has_ack_id tunnel \<and> tunnel_ack_id tunnel = next_id s))
            \<or> read_buffer s' \<noteq> []" and
    i: "id_field r = Some (next_id s')" and
    pl: "payload_field r =
          (case read_buffer s' of
             [] \<Rightarrow> None
           | D # rest \<Rightarrow> Some (take (min (length D) 8) D))"
    by blast
  have n': "next_id s' = next_id s" and rb': "read_buffer s' = read_buffer s"
    using n rb assms(2) by simp_all
  show ?thesis
  proof (intro exI conjI impI)
    show "HandleNetworkTunnelTxRx env s tunnel = Inr (s', es)"
      by (rule run)
    show "next_id s' = next_id s" "read_buffer s' = read_buffer s"
      by (rule n', rule rb')
    show "payload_in_flight s' \<longleftrightarrow>
        payload_in_flight s \<or> (has_id tunnel \<and> read_buffer s \<noteq> [])"
      using p rb' assms(2) True by simp
    show "sent es = [Response_NetworkTunnelTxRx r]"
      by (rule sent)
    show "id_field r = Some (next_id s)"
      using i n' by simp
    show "payload_field r =
          (case read_buffer s of
             [] \<Rightarrow> None
           | D # rest \<Rightarrow> Some (take (min (length D) 8) D))"
      using pl rb' by simp
  qed
qed

theorem ack_mismatch_retransmits_witness:
  "has_ack_id (message (Some 2) (Some 0) None None)
   \<and> tunnel_ack_id (message (Some 2) (Some 0) None None)
        \<noteq> next_id (endpoint 1 (Some 1) [] [[1, 2, 3]] True)
   \<and> has_id (message (Some 2) (Some 0) None None)
   \<and> (\<exists>s' es r. HandleNetworkTunnelTxRx env_ok (endpoint 1 (Some 1) [] [[1, 2, 3]] True)
            (message (Some 2) (Some 0) None None) = Inr (s', es)
          \<and> next_id s' = 1
          \<and> read_buffer s' = [[1, 2, 3]]
          \<and> payload_in_flight s'
          \<and> sent es = [Response_NetworkTunnelTxRx r]
          \<and> id_field r = Some 1
          \<and> payload_field r = Some [1, 2, 3])"
  using ack_mismatch_retransmits [of "message (Some 2) (Some 0) None None"
      "endpoint 1 (Some 1) [] [[1, 2, 3]] True" env_ok]
  by (auto simp add: has_id_def has_ack_id_def tunnel_ack_id_def message_def endpoint_def)

text \<open>
  C2 as stated keeps \<open>payload_in_flight\<close> as it was. Here nothing is in flight, a
  datagram waits in the read buffer, the \<open>ack_id\<close> 0 differs from \<open>next_id\<close> 1, and the
  response picks up the first fragment and sets the flag.
\<close>

theorem ack_mismatch_sets_payload_in_flight_counterexample:
  "has_ack_id (message (Some 2) (Some 0) None None)
   \<and> tunnel_ack_id (message (Some 2) (Some 0) None None)
        \<noteq> next_id (endpoint 1 (Some 1) [] [[1, 2, 3]] False)
   \<and> HandleNetworkTunnelTxRx env_ok (endpoint 1 (Some 1) [] [[1, 2, 3]] False)
        (message (Some 2) (Some 0) None None)
      = Inr (endpoint 1 (Some 2) [] [[1, 2, 3]] True,
             [LOGE ''Primary radio failed to ack, retransmitting'' [],
              Send (Response_NetworkTunnelTxRx
                      (message (Some 1) (Some 2) (Some [1, 2, 3]) (Some 0)))])
   \<and> payload_in_flight (endpoint 1 (Some 2) [] [[1, 2, 3]] True)
        \<noteq> payload_in_flight (endpoint 1 (Some 1) [] [[1, 2, 3]] False)"
  by (simp add: HandleNetworkTunnelTxRx_def receive_side_def handle_ack_def
      compose_response_def ValidateID_def AdvanceID_def optional_value_def
      has_id_def has_ack_id_def has_payload_def tunnel_id_def tunnel_ack_id_def
      message_def endpoint_def env_ok_def Let_def)

text \<open>
  C3, as amended. A tunnel message that fails the check for missing fields changes
  nothing. One that passes it advances \<open>next_id\<close> by one iff it carries
  \<open>ack_id = next_id\<close>, whether or not a payload is in flight, and in no other case. When
  it does and a payload is in flight, the first \<open>min(8, |D|)\<close> bytes of the front
  datagram \<open>D\<close> are erased and \<open>D\<close> is popped when nothing is left of it; otherwise the
  read buffer is as it was. The flag of the acknowledged fragment is cleared, and the
  response composed in the same call sets it again exactly when the read buffer still
  holds data, in which case the response carries the next fragment under the new id.
\<close>

theorem acknowledged_fragment_is_erased:
  "(\<not> has_id tunnel \<or> (last_ack_id s \<noteq> None \<and> \<not> has_ack_id tunnel) \<longrightarrow>
      HandleNetworkTunnelTxRx env s tunnel = Inr (s, [LOGE ''Missing tunnel fields'' []]))
   \<and> (has_id tunnel \<and> (last_ack_id s = None \<or> has_ack_id tunnel) \<longrightarrow>
        (\<exists>s' es r.
           HandleNetworkTunnelTxRx env s tunnel = Inr (s', es)
           \<and> sent es = [Response_NetworkTunnelTxRx r]
           \<and> next_id s' =
               (if has_ack_id tunnel \<and> tunnel_ack_id tunnel = next_id s
                then next_id s + 1 else next_id s)
           \<and> read_buffer s' =
               (if has_ack_id tunnel \<and> tunnel_ack_id tunnel = next_id s \<and> payload_in_flight s
                then (case read_buffer s of
                        [] \<Rightarrow> []
                      | D # rest \<Rightarrow>
                          if drop (min (length D) 8) D = [] then rest
                          else drop (min (length D) 8) D # rest)
                else read_buffer s)
           \<and> (payload_in_flight s' \<longleftrightarrow>
                 (payload_in_flight s
                    \<and> \<not> (has_ack_id tunnel \<and> tunnel_ack_id tunnel = next_id s))
                 \<or> read_buffer s' \<noteq> [])
           \<and> id_field r = Some (next_id s')
           \<and> payload_field r =
               (case read_buffer s' of
                  [] \<Rightarrow> None
                | D # rest \<Rightarrow> Some (take (min (length D) 8) D))))"
proof (intro conjI impI)
  assume "\<not> has_id tunnel \<or> (last_ack_id s \<noteq> None \<and> \<not> has_ack_id tunnel)"
  then show "HandleNetworkTunnelTxRx env s tunnel = Inr (s, [LOGE ''Missing tunnel fields'' []])"
    by (rule HandleNetworkTunnelTxRx_rejected)
next
  assume "has_id tunnel \<and> (last_ack_id s = None \<or> has_ack_id tunnel)"
  then have h: "has_id tunnel" "last_ack_id s = None \<or> has_ack_id tunnel"
    by simp_all
  from HandleNetworkTunnelTxRx_outcome [OF h, of env]
  show "\<exists>s' es r.
           HandleNetworkTunnelTxRx env s tunnel = Inr (s', es)
           \<and> sent es = [Response_NetworkTunnelTxRx r]
           \<and> next_id s' =
               (if has_ack_id tunnel \<and> tunnel_ack_id tunnel = next_id s
                then next_id s + 1 else next_id s)
           \<and> read_buffer s' =
               (if has_ack_id tunnel \<and> tunnel_ack_id tunnel = next_id s \<and> payload_in_flight s
                then (case read_buffer s of
                        [] \<Rightarrow> []
                      | D # rest \<Rightarrow>
                          if drop (min (length D) 8) D = [] then rest
                          else drop (min (length D) 8) D # rest)
                else read_buffer s)
           \<and> (payload_in_flight s' \<longleftrightarrow>
                 (payload_in_flight s
                    \<and> \<not> (has_ack_id tunnel \<and> tunnel_ack_id tunnel = next_id s))
                 \<or> read_buffer s' \<noteq> [])
           \<and> id_field r = Some (next_id s')
           \<and> payload_field r =
               (case read_buffer s' of
                  [] \<Rightarrow> None
                | D # rest \<Rightarrow> Some (take (min (length D) 8) D))"
    by (elim exE conjE, intro exI conjI) assumption+
qed

theorem acknowledged_fragment_is_erased_witness:
  "has_id (message (Some 1) (Some 0) None None)
   \<and> has_ack_id (message (Some 1) (Some 0) None None)
   \<and> tunnel_ack_id (message (Some 1) (Some 0) None None)
       = next_id (endpoint 0 (Some 0) [] [[1, 2, 3, 4, 5, 6, 7, 8, 9, 10]] True)
   \<and> payload_in_flight (endpoint 0 (Some 0) [] [[1, 2, 3, 4, 5, 6, 7, 8, 9, 10]] True)
   \<and> (\<exists>s' es r.
         HandleNetworkTunnelTxRx env_ok
           (endpoint 0 (Some 0) [] [[1, 2, 3, 4, 5, 6, 7, 8, 9, 10]] True)
           (message (Some 1) (Some 0) None None) = Inr (s', es)
         \<and> sent es = [Response_NetworkTunnelTxRx r]
         \<and> next_id s' = 1
         \<and> read_buffer s' = [[9, 10]]
         \<and> payload_in_flight s'
         \<and> id_field r = Some 1
         \<and> payload_field r = Some [9, 10])
   \<and> \<not> has_id (message None (Some 0) None None)
   \<and> HandleNetworkTunnelTxRx env_ok
        (endpoint 0 (Some 0) [] [[1, 2, 3, 4, 5, 6, 7, 8, 9, 10]] True)
        (message None (Some 0) None None)
      = Inr (endpoint 0 (Some 0) [] [[1, 2, 3, 4, 5, 6, 7, 8, 9, 10]] True,
             [LOGE ''Missing tunnel fields'' []])"
  using acknowledged_fragment_is_erased [of "message (Some 1) (Some 0) None None"
      "endpoint 0 (Some 0) [] [[1, 2, 3, 4, 5, 6, 7, 8, 9, 10]] True" env_ok]
    acknowledged_fragment_is_erased [of "message None (Some 0) None None"
      "endpoint 0 (Some 0) [] [[1, 2, 3, 4, 5, 6, 7, 8, 9, 10]] True" env_ok]
  by (auto simp add: has_id_def has_ack_id_def tunnel_ack_id_def message_def endpoint_def)

text \<open>
  C3 as stated lets \<open>next_id\<close> advance only while a payload is in flight.
  Here none is in flight, the read buffer is empty, and the acknowledged endpoint
  still moves from id 0 to id 1.
\<close>

theorem ack_without_payload_in_flight_counterexample:
  "\<not> payload_in_flight (endpoint 0 (Some 0) [] [] False)
   \<and> HandleNetworkTunnelTxRx env_ok (endpoint 0 (Some 0) [] [] False)
        (message (Some 1) (Some 0) None None)
      = Inr (endpoint 1 (Some 1) [] [] False,
             [Send (Response_NetworkTunnelTxRx (message (Some 1) (Some 1) None None))])
   \<and> next_id (endpoint 1 (Some 1) [] [] False) = next_id (endpoint 0 (Some 0) [] [] False) + 1"
  by (simp add: HandleNetworkTunnelTxRx_def receive_side_def handle_ack_def
      compose_response_def ValidateID_def AdvanceID_def optional_value_def
      has_id_def has_ack_id_def has_payload_def tunnel_id_def tunnel_ack_id_def
      message_def endpoint_def env_ok_def Let_def)

text \<open>
  C4. Every tunnel request that passes the check for missing fields is answered with
  one response. When the read buffer, as the acknowledgement left it, has a front
  datagram \<open>D\<close>, the response's payload is the first \<open>min(8, |D|)\<close> bytes of \<open>D\<close>, its
  \<open>remaining_bytes\<close> is \<open>|D|\<close> minus the payload's length (as a 32-bit value, and as a
  number whenever \<open>|D|\<close> fits in 32 bits), and \<open>payload_in_flight\<close> is set. Composing the
  response removes nothing: the read buffer after the call is the one the
  acknowledgement left, with all of \<open>D\<close> at its front.
\<close>

theorem response_carries_front_fragment:
  assumes "has_id tunnel" and "last_ack_id s = None \<or> has_ack_id tunnel"
  shows "\<exists>s' es r.
      HandleNetworkTunnelTxRx env s tunnel = Inr (s', es)
      \<and> sent es = [Response_NetworkTunnelTxRx r]
      \<and> read_buffer s' =
          (if has_ack_id tunnel \<and> tunnel_ack_id tunnel = next_id s \<and> payload_in_flight s
           then (case read_buffer s of
                   [] \<Rightarrow> []
                 | D # rest \<Rightarrow>
                     if drop (min (length D) 8) D = [] then rest
                     else drop (min (length D) 8) D # rest)
           else read_buffer s)
      \<and> (case read_buffer s' of
            [] \<Rightarrow> payload_field r = None \<and> remaining_bytes_field r = None
          | D # rest \<Rightarrow>
              payload_field r = Some (take (min 8 (length D)) D)
              \<and> length (tunnel_payload r) = min 8 (length D)
              \<and> tunnel_remaining_bytes r
                   = of_nat (length D) - of_nat (length (tunnel_payload r))
              \<and> (length D < 2 ^ 32 \<longrightarrow>
                   unat (tunnel_remaining_bytes r) = length D - length (tunnel_payload r))
              \<and> payload_in_flight s')"
proof -
  from HandleNetworkTunnelTxRx_outcome [OF assms, of env] obtain s' es r where
    run: "HandleNetworkTunnelTxRx env s tunnel = Inr (s', es)" and
    sent: "sent es = [Response_NetworkTunnelTxRx r]" and
    rb: "read_buffer s' =
          (if has_ack_id tunnel \<and> tunnel_ack_id tunnel = next_id s \<and> payload_in_flight s
           then (case read_buffer s of
                   [] \<Rightarrow> []
                 | D # rest \<Rightarrow>
                     if drop (min (length D) 8) D = [] then rest
                     else drop (min (length D) 8) D # rest)
           else read_buffer s)" and
    p: "payload_in_flight s' \<longleftrightarrow>
            (payload_in_flight s \<and> \<not> (has_ack_id tunnel \<and> tunnel_ack_id tunnel = next_id s))
            \<or> read_buffer s' \<noteq> []" and
    pl: "payload_field r =
          (case read_buffer s' of
             [] \<Rightarrow> None
           | D # rest \<Rightarrow> Some (take (min (length D) 8) D))" and
    rm: "remaining_bytes_field r =
          (case read_buffer s' of
             [] \<Rightarrow> None
           | D # rest \<Rightarrow> Some (of_nat (length D - min (length D) 8)))"
    by blast
  have front: "case read_buffer s' of
            [] \<Rightarrow> payload_field r = None \<and> remaining_bytes_field r = None
          | D # rest \<Rightarrow>
              payload_field r = Some (take (min 8 (length D)) D)
              \<and> length (tunnel_payload r) = min 8 (length D)
              \<and> tunnel_remaining_bytes r
                   = of_nat (length D) - of_nat (length (tunnel_payload r))
              \<and> (length D < 2 ^ 32 \<longrightarrow>
                   unat (tunnel_remaining_bytes r) = length D - length (tunnel_payload r))
              \<and> payload_in_flight s'"
  proof (cases "read_buffer s'")
    case Nil
    with pl rm show ?thesis
      by simp
  next
    case (Cons D rest)
    have a: "payload_field r = Some (take (min (length D) 8) D)"
      using pl Cons by simp
    have b: "remaining_bytes_field r = Some (of_nat (length D - min (length D) 8))"
      using rm Cons by (simp only: list.case)
    have c: "payload_in_flight s'"
      using p Cons by simp
    from fragment_fields [OF a b] c show ?thesis
      unfolding Cons list.case by (elim conjE, intro conjI) assumption+
  qed
  from run sent rb front show ?thesis
    by (intro exI conjI)
qed

theorem response_carries_front_fragment_witness:
  "has_id (message (Some 4) (Some 0) None None)
   \<and> has_ack_id (message (Some 4) (Some 0) None None)
   \<and> (\<exists>s' es r.
        HandleNetworkTunnelTxRx env_ok
          (endpoint 4 (Some 3) [] [[1, 2, 3, 4, 5, 6, 7, 8, 9, 10, 11, 12, 13], [7]] False)
          (message (Some 4) (Some 0) None None) = Inr (s', es)
        \<and> sent es = [Response_NetworkTunnelTxRx r]
        \<and> read_buffer s' = [[1, 2, 3, 4, 5, 6, 7, 8, 9, 10, 11, 12, 13], [7]]
        \<and> payload_field r = Some [1, 2, 3, 4, 5, 6, 7, 8]
        \<and> tunnel_remaining_bytes r = 5
        \<and> unat (tunnel_remaining_bytes r) = 13 - length (tunnel_payload r)
        \<and> payload_in_flight s')"
  using response_carries_front_fragment [of "message (Some 4) (Some 0) None None"
      "endpoint 4 (Some 3) [] [[1, 2, 3, 4, 5, 6, 7, 8, 9, 10, 11, 12, 13], [7]] False" env_ok]
  by (auto simp add: has_id_def has_ack_id_def tunnel_ack_id_def message_def endpoint_def)

subsection \<open>Requests with a non-sequential id\<close>




subsection \<open>Reassembly\<close>

text \<open>
  C5, as amended. A tunnel request that passes the check for missing fields and has a
  valid id: if it carries a payload, the payload is appended to \<open>frame_buffer\<close>, and if
  in addition its \<open>remaining_bytes\<close> is zero, the buffer with the payload appended is
  written to the tunnel once and cleared. A request without a payload leaves
  \<open>frame_buffer\<close> as it was and writes nothing, whatever its \<open>remaining_bytes\<close>.
\<close>

theorem valid_request_reassembly:
  assumes "has_id tunnel" and "last_ack_id s = None \<or> has_ack_id tunnel"
    and "fst (ValidateID s (tunnel_id tunnel))"
  shows "\<exists>s' es.
      HandleNetworkTunnelTxRx env s tunnel = Inr (s', es)
      \<and> frame_buffer s' =
          (if has_payload tunnel then
             if tunnel_remaining_bytes tunnel = 0 then []
             else frame_buffer s @ tunnel_payload tunnel
           else frame_buffer s)
      \<and> written es =
          (if has_payload tunnel \<and> tunnel_remaining_bytes tunnel = 0
           then [frame_buffer s @ tunnel_payload tunnel] else [])"
proof -
  from assms(1,2) obtain s1 es1 s2 es2 s3 r tail where
    rs: "receive_side env s tunnel = Inr (s1, es1)" and
    ha: "handle_ack s1 tunnel = (s2, es2)" and
    cr: "compose_response s2 = Inr (s3, r)" and
    run: "HandleNetworkTunnelTxRx env s tunnel =
       Inr (s3, es1 @ es2 @ Send (Response_NetworkTunnelTxRx r) # tail)" and
    tail: "written tail = []"
    by (rule HandleNetworkTunnelTxRx_run)
  from receive_side_valid [OF assms(3), of env] rs have
    k1: "frame_buffer s1 =
          (if has_payload tunnel then
             if tunnel_remaining_bytes tunnel = 0 then []
             else frame_buffer s @ tunnel_payload tunnel
           else frame_buffer s)"
      "written es1 =
          (if has_payload tunnel \<and> tunnel_remaining_bytes tunnel = 0
           then [frame_buffer s @ tunnel_payload tunnel] else [])"
    by (auto split: if_splits)
  from handle_ack_frame [of s1 tunnel] ha have
    k2: "frame_buffer s2 = frame_buffer s1" "written es2 = []"
    by simp_all
  have k3: "frame_buffer s3 = frame_buffer s2"
    using compose_response_frame [OF cr] by simp
  show ?thesis
  proof (intro exI conjI)
    show "HandleNetworkTunnelTxRx env s tunnel =
       Inr (s3, es1 @ es2 @ Send (Response_NetworkTunnelTxRx r) # tail)"
      by (rule run)
    show "frame_buffer s3 =
          (if has_payload tunnel then
             if tunnel_remaining_bytes tunnel = 0 then []
             else frame_buffer s @ tunnel_payload tunnel
           else frame_buffer s)"
      unfolding k3 k2(1) by (rule k1(1))
    have "written (es1 @ es2 @ Send (Response_NetworkTunnelTxRx r) # tail) = written es1"
      by (simp add: written_append k2 tail)
    then show "written (es1 @ es2 @ Send (Response_NetworkTunnelTxRx r) # tail) =
          (if has_payload tunnel \<and> tunnel_remaining_bytes tunnel = 0
           then [frame_buffer s @ tunnel_payload tunnel] else [])"
      by (simp only: k1(2))
  qed
qed

theorem valid_request_reassembly_witness:
  "has_id (message (Some 1) (Some 0) (Some [73, 74, 75, 76, 77]) (Some 0))
   \<and> has_ack_id (message (Some 1) (Some 0) (Some [73, 74, 75, 76, 77]) (Some 0))
   \<and> fst (ValidateID (endpoint 0 (Some 0) [65, 66, 67, 68, 69, 70, 71, 72] [] False)
           (tunnel_id (message (Some 1) (Some 0) (Some [73, 74, 75, 76, 77]) (Some 0))))
   \<and> (\<exists>s' es.
        HandleNetworkTunnelTxRx env_ok (endpoint 0 (Some 0) [65, 66, 67, 68, 69, 70, 71, 72] [] False)
          (message (Some 1) (Some 0) (Some [73, 74, 75, 76, 77]) (Some 0)) = Inr (s', es)
        \<and> frame_buffer s' = []
        \<and> written es = [[65, 66, 67, 68, 69, 70, 71, 72, 73, 74, 75, 76, 77]])"
  using valid_request_reassembly [of "message (Some 1) (Some 0) (Some [73, 74, 75, 76, 77]) (Some 0)"
      "endpoint 0 (Some 0) [65, 66, 67, 68, 69, 70, 71, 72] [] False" env_ok]
  by (simp add: has_id_def has_ack_id_def has_payload_def tunnel_id_def tunnel_payload_def
      tunnel_remaining_bytes_def ValidateID_def message_def endpoint_def)

text \<open>
  C5 as stated flushes on \<open>remaining_bytes = 0\<close> alone. Here a valid request
  has no payload and \<open>remaining_bytes = 0\<close>, three bytes wait in \<open>frame_buffer\<close>, and the
  handler writes nothing and keeps them.
\<close>

theorem flush_without_payload_counterexample:
  "fst (ValidateID (endpoint 0 (Some 3) [1, 2, 3] [] False)
         (tunnel_id (message (Some 4) (Some 0) None (Some 0))))
   \<and> tunnel_remaining_bytes (message (Some 4) (Some 0) None (Some 0)) = 0
   \<and> HandleNetworkTunnelTxRx env_ok (endpoint 0 (Some 3) [1, 2, 3] [] False)
        (message (Some 4) (Some 0) None (Some 0))
      = Inr (endpoint 1 (Some 4) [1, 2, 3] [] False,
             [Send (Response_NetworkTunnelTxRx (message (Some 1) (Some 4) None None))])
   \<and> written [Send (Response_NetworkTunnelTxRx (message (Some 1) (Some 4) None None))] = []
   \<and> frame_buffer (endpoint 1 (Some 4) [1, 2, 3] [] False) \<noteq> []"
  by (simp add: HandleNetworkTunnelTxRx_def receive_side_def handle_ack_def
      compose_response_def ValidateID_def AdvanceID_def optional_value_def
      has_id_def has_ack_id_def has_payload_def tunnel_id_def tunnel_ack_id_def
      tunnel_remaining_bytes_def message_def endpoint_def env_ok_def Let_def)

subsection \<open>The beacon schedule of the mock link\<close>

lemma beacons_count:
  "beacon_count (beacons link ts) = beacon_count link + of_nat (length ts)
   \<and> config (beacons link ts) = config link"
  by (induction ts arbitrary: link) (simp_all add: Beacon_def Let_def)

lemma Beacon_failures:
  "fst (Beacon link t) = [] \<longleftrightarrow>
     beacon_count link * beacon_interval_us (config link) \<le> t
     \<and> t < beacon_count link * beacon_interval_us (config link) + 10000"
  by (simp add: Beacon_def Let_def)

lemma unat_expected:
  fixes i :: u64
  assumes "n * unat i + 10000 < 2 ^ 64"
  shows "unat (of_nat n * i) = n * unat i"
    and "unat (of_nat n * i + 10000) = n * unat i + 10000"
proof -
  have "unat (of_nat n * i) = (n mod 2 ^ 64 * unat i) mod 2 ^ 64"
    by (simp add: unat_word_ariths unat_of_nat)
  also have "\<dots> = (n * unat i) mod 2 ^ 64"
    by (simp add: mod_mult_left_eq)
  also have "\<dots> = n * unat i"
    using assms by simp
  finally show e: "unat (of_nat n * i) = n * unat i" .
  have "unat (of_nat n * i + 10000) = (unat (of_nat n * i) + 10000) mod 2 ^ 64"
    by (simp add: unat_word_ariths)
  also have "\<dots> = n * unat i + 10000"
    unfolding e using assms by simp
  finally show "unat (of_nat n * i + 10000) = n * unat i + 10000" .
qed

text \<open>
  C8, as amended. After \<open>n\<close> earlier calls, that is at invocation \<open>n\<close> counted from
  zero, and as long as \<open>n * beacon_interval + 10000\<close> fits in 64 bits, \<open>Beacon\<close> records no
  failed expectation iff the relative time lies in
  \<open>[n * beacon_interval, n * beacon_interval + 10000)\<close> microseconds: on time or less
  than 10 ms late, never early.
\<close>

theorem Beacon_schedule:
  assumes "length ts = n" and "n * unat (beacon_interval_us c) + 10000 < 2 ^ 64"
  shows "fst (Beacon (beacons (MockLink_new c) ts) t) = [] \<longleftrightarrow>
     n * unat (beacon_interval_us c) \<le> unat t
     \<and> unat t < n * unat (beacon_interval_us c) + 10000"
proof -
  have b: "beacon_count (beacons (MockLink_new c) ts) = of_nat n"
    "config (beacons (MockLink_new c) ts) = c"
    using beacons_count [of "MockLink_new c" ts] assms(1) by (simp_all add: MockLink_new_def)
  note u = unat_expected [OF assms(2)]
  show ?thesis
    unfolding Beacon_failures b word_le_nat_alt word_less_nat_alt u ..
qed

theorem Beacon_schedule_witness:
  "length [0, 100005 :: u64] = 2
   \<and> 2 * unat (beacon_interval_us
         \<lparr>mock_time_us = 1000000, beacon_interval_us = 100000,
          beacon_result_pattern = [TransmitResult_SUCCESS], max_payload_size = 32\<rparr>)
       + 10000 < (2 :: nat) ^ 64
   \<and> fst (Beacon (beacons (MockLink_new
         \<lparr>mock_time_us = 1000000, beacon_interval_us = 100000,
          beacon_result_pattern = [TransmitResult_SUCCESS], max_payload_size = 32\<rparr>)
         [0, 100005]) 209999) = []
   \<and> fst (Beacon (beacons (MockLink_new
         \<lparr>mock_time_us = 1000000, beacon_interval_us = 100000,
          beacon_result_pattern = [TransmitResult_SUCCESS], max_payload_size = 32\<rparr>)
         [0, 100005]) 210000) \<noteq> []"
  using Beacon_schedule [of "[0, 100005]" 2
      "\<lparr>mock_time_us = 1000000, beacon_interval_us = 100000,
          beacon_result_pattern = [TransmitResult_SUCCESS], max_payload_size = 32\<rparr>" 209999]
    Beacon_schedule [of "[0, 100005]" 2
      "\<lparr>mock_time_us = 1000000, beacon_interval_us = 100000,
          beacon_result_pattern = [TransmitResult_SUCCESS], max_payload_size = 32\<rparr>" 210000]
  by simp

text \<open>
  C8 as stated also accepts every beacon within 10 ms on either side of the
  nominal time. Invocation 1 with an interval of 100000 microseconds, one microsecond
  early, fails \<open>EXPECT_GE\<close>.
\<close>

theorem Beacon_early_counterexample:
  "\<bar>int (unat (99999 :: u64)) - 1 * int (unat (100000 :: u64))\<bar> \<le> 10000
   \<and> fst (Beacon (beacons (MockLink_new
         \<lparr>mock_time_us = 1000000, beacon_interval_us = 100000,
          beacon_result_pattern = [TransmitResult_SUCCESS], max_payload_size = 32\<rparr>)
         [0]) 99999) = [EXPECT_GE_failure 99999 100000]"
  by (simp add: Beacon_def MockLink_new_def Let_def)

end
